theory Spec2Isabelle
  imports Complex_Main "HOL-Library.AList"
begin

section \<open>Timestamps\<close>

text \<open>
  The index of every table and series handled by \<^verbatim>\<open>dataframe_plotter.py\<close> is a
  pandas \<^verbatim>\<open>DatetimeIndex\<close>.  The source reads the attributes \<^verbatim>\<open>month\<close>,
  \<^verbatim>\<open>dayofweek\<close>, \<^verbatim>\<open>hour\<close>, \<^verbatim>\<open>minute\<close>, \<^verbatim>\<open>second\<close> and
  \<^verbatim>\<open>microsecond\<close> of its entries, so a timestamp is a record of its civil fields.
\<close>

record timestamp =
  year :: int
  month :: int
  day :: int
  hour :: int
  minute :: int
  second :: int
  microsecond :: int

definition is_leap :: "int \<Rightarrow> bool" where
  "is_leap y = (y mod 4 = 0 \<and> (y mod 100 \<noteq> 0 \<or> y mod 400 = 0))"

definition days_in_month :: "int \<Rightarrow> int list" where
  "days_in_month y =
     [31, if is_leap y then 29 else 28, 31, 30, 31, 30, 31, 31, 30, 31, 30, 31]"

definition valid_date :: "timestamp \<Rightarrow> bool" where
  "valid_date t =
     (1 \<le> year t \<and> year t \<le> 9999 \<and> 1 \<le> month t \<and> month t \<le> 12 \<and> 1 \<le> day t
      \<and> day t \<le> days_in_month (year t) ! nat (month t - 1))"

definition valid_time :: "timestamp \<Rightarrow> bool" where
  "valid_time t =
     (0 \<le> hour t \<and> hour t < 24 \<and> 0 \<le> minute t \<and> minute t < 60
      \<and> 0 \<le> second t \<and> second t < 60
      \<and> 0 \<le> microsecond t \<and> microsecond t < 1000000)"

definition valid_timestamp :: "timestamp \<Rightarrow> bool" where
  "valid_timestamp t = (valid_date t \<and> valid_time t)"

text \<open>
  \<^verbatim>\<open>DatetimeIndex.dayofweek\<close> is library code: "the day of the week with Monday=0,
  Sunday=6".  It is computed here the way the standard library computes
  \<^verbatim>\<open>date.weekday()\<close>: from the proleptic Gregorian ordinal of the date, day 1 being
  0001-01-01, a Monday.
\<close>

definition days_before_year :: "int \<Rightarrow> int" where
  "days_before_year y =
     (y - 1) * 365 + (y - 1) div 4 - (y - 1) div 100 + (y - 1) div 400"

definition days_before_month :: "int \<Rightarrow> int \<Rightarrow> int" where
  "days_before_month y m = sum_list (take (nat (m - 1)) (days_in_month y))"

definition toordinal :: "timestamp \<Rightarrow> int" where
  "toordinal t = days_before_year (year t) + days_before_month (year t) (month t) + day t"

definition dayofweek :: "timestamp \<Rightarrow> int" where
  "dayofweek t = (toordinal t + 6) mod 7"

section \<open>Tables and series\<close>

text \<open>
  A pandas object is its index together with its named columns, each column holding one
  value per index entry.  A \<^verbatim>\<open>Series\<close> is the one-column case; the source tells the
  two apart with \<^verbatim>\<open>type(df) is pd.Series\<close>.  Column names are unique, as the
  specification's data model says.
\<close>

datatype kind = Series | DataFrame

record frame =
  kind :: kind
  index :: "timestamp list"
  cols :: "(string \<times> real list) list"

definition columns :: "frame \<Rightarrow> string list" where
  "columns f = map fst (cols f)"

definition wf_frame :: "frame \<Rightarrow> bool" where
  "wf_frame f =
     (distinct (map fst (cols f))
      \<and> (\<forall>c \<in> set (cols f). length (snd c) = length (index f))
      \<and> (kind f = Series \<longrightarrow> length (cols f) = 1))"

datatype error =
  TypeError | ValueError | IndexError | KeyError | AttributeError | ZeroDivisionError

text \<open>\<^verbatim>\<open>pd.DataFrame(index=idx)\<close>: a new table with that index and no column.\<close>

definition DataFrame_of_index :: "timestamp list \<Rightarrow> frame" where
  "DataFrame_of_index idx = \<lparr>kind = DataFrame, index = idx, cols = []\<rparr>"

text \<open>\<^verbatim>\<open>df[name] = values\<close>: overwrite the column of that name, or append a new one.\<close>

definition setitem :: "frame \<Rightarrow> string \<Rightarrow> real list \<Rightarrow> frame" where
  "setitem f name vs = f\<lparr>cols := AList.update name vs (cols f)\<rparr>"

text \<open>\<^verbatim>\<open>df[name]\<close>: the values of a column; a name that is no column raises KeyError.\<close>

definition getitem :: "frame \<Rightarrow> string \<Rightarrow> error + real list" where
  "getitem f name = (case map_of (cols f) name of None \<Rightarrow> Inl KeyError | Some vs \<Rightarrow> Inr vs)"

text \<open>\<^verbatim>\<open>values.isin(wanted)\<close>: the boolean mask of membership.\<close>

definition isin :: "real list \<Rightarrow> int list \<Rightarrow> bool list" where
  "isin vs wanted = map (\<lambda>v. v \<in> set (map of_int wanted)) vs"

text \<open>\<^verbatim>\<open>df[mask]\<close>: the rows at the positions where the mask holds, in order.\<close>

definition select :: "bool list \<Rightarrow> 'a list \<Rightarrow> 'a list" where
  "select keep xs = map snd (filter fst (zip keep xs))"

definition getitem_mask :: "frame \<Rightarrow> bool list \<Rightarrow> frame" where
  "getitem_mask f keep =
     f\<lparr>index := select keep (index f),
       cols := map (\<lambda>c. (fst c, select keep (snd c))) (cols f)\<rparr>"

text \<open>
  \<^verbatim>\<open>obj.loc[labels]\<close>: label-based selection.  For every label in turn it yields all
  rows of \<^verbatim>\<open>obj\<close> whose index entry equals the label.  (A label that is no index
  entry would raise; \<^verbatim>\<open>filter_days\<close> only passes labels taken from the index itself.)
\<close>

definition take_label :: "timestamp list \<Rightarrow> 'a list \<Rightarrow> timestamp \<Rightarrow> 'a list" where
  "take_label idx xs l = map snd (filter (\<lambda>p. fst p = l) (zip idx xs))"

definition loc :: "frame \<Rightarrow> timestamp list \<Rightarrow> frame" where
  "loc f labels =
     f\<lparr>index := concat (map (take_label (index f) (index f)) labels),
       cols := map (\<lambda>c. (fst c, concat (map (take_label (index f) (snd c)) labels))) (cols f)\<rparr>"

section \<open>The day and month filter\<close>

text \<open>
  The two selectors of \<^verbatim>\<open>filter_days\<close> are dynamically typed: \<^verbatim>\<open>None\<close>, an
  integer or a list of integers, and for \<^verbatim>\<open>days_of_week\<close> also a string.
\<close>

datatype months_arg = MNone | MInt int | MList "int list"

datatype days_arg = DNone | DInt int | DList "int list" | DStr string

text \<open>Python truthiness, as tested by \<^verbatim>\<open>if months:\<close> and \<^verbatim>\<open>if days_of_week:\<close>.\<close>

fun truthy_months :: "months_arg \<Rightarrow> bool" where
  "truthy_months MNone = False"
| "truthy_months (MInt k) = (k \<noteq> 0)"
| "truthy_months (MList l) = (l \<noteq> [])"

fun truthy_days :: "days_arg \<Rightarrow> bool" where
  "truthy_days DNone = False"
| "truthy_days (DInt k) = (k \<noteq> 0)"
| "truthy_days (DList l) = (l \<noteq> [])"
| "truthy_days (DStr s) = (s \<noteq> [])"

text \<open>Lines 29-30: a single month becomes a one-element list.\<close>

fun months_list :: "months_arg \<Rightarrow> int list" where
  "months_list MNone = []"
| "months_list (MInt k) = [k]"
| "months_list (MList l) = l"

text \<open>
  Lines 35-40.  A string that is none of the four presets stays a string, and
  \<^verbatim>\<open>isin\<close> on line 42 rejects a string argument with a TypeError.
\<close>

fun days_list :: "days_arg \<Rightarrow> error + int list" where
  "days_list DNone = Inr []"
| "days_list (DInt k) = Inr [k]"
| "days_list (DList l) = Inr l"
| "days_list (DStr s) =
     (if s \<in> set [''weekday'', ''wkday''] then Inr [0, 1, 2, 3, 4]
      else if s \<in> set [''weekend'', ''wkend''] then Inr [5, 6]
      else Inl TypeError)"

text \<open>Lines 28-32 of \<^verbatim>\<open>filter_days\<close>.\<close>

definition filter_months :: "frame \<Rightarrow> months_arg \<Rightarrow> error + frame" where
  "filter_months df_temp months =
     (if truthy_months months then
        (let df_temp = setitem df_temp ''month'' (map (\<lambda>t. of_int (month t)) (index df_temp))
         in case getitem df_temp ''month'' of
              Inl e \<Rightarrow> Inl e
            | Inr col \<Rightarrow> Inr (getitem_mask df_temp (isin col (months_list months))))
      else Inr df_temp)"

text \<open>Lines 33-42 of \<^verbatim>\<open>filter_days\<close>.\<close>

definition filter_dayofweek :: "frame \<Rightarrow> days_arg \<Rightarrow> error + frame" where
  "filter_dayofweek df_temp days_of_week =
     (if truthy_days days_of_week then
        (let df_temp =
               setitem df_temp ''dayofweek'' (map (\<lambda>t. of_int (dayofweek t)) (index df_temp))
         in case getitem df_temp ''dayofweek'' of
              Inl e \<Rightarrow> Inl e
            | Inr col \<Rightarrow>
                (case days_list days_of_week of
                   Inl e \<Rightarrow> Inl e
                 | Inr days \<Rightarrow> Inr (getitem_mask df_temp (isin col days))))
      else Inr df_temp)"

text \<open>\<^verbatim>\<open>filter_days(df_or_series, days_of_week=None, months=None)\<close>, lines 16-44.\<close>

definition filter_days :: "frame \<Rightarrow> days_arg \<Rightarrow> months_arg \<Rightarrow> error + frame" where
  "filter_days df_or_series days_of_week months =
     (let df_temp = DataFrame_of_index (index df_or_series)
      in case filter_months df_temp months of
           Inl e \<Rightarrow> Inl e
         | Inr df_temp \<Rightarrow>
             (case filter_dayofweek df_temp days_of_week of
                Inl e \<Rightarrow> Inl e
              | Inr df_temp \<Rightarrow> Inr (loc df_or_series (index df_temp))))"

subsection \<open>What the filter is expected to return\<close>

text \<open>
  The subset of the rows of a table whose timestamp satisfies \<open>P\<close>: the rows keep their
  order, the table keeps its kind and its columns, each column keeps the values of the
  kept rows.
\<close>

definition keep_rows :: "(timestamp \<Rightarrow> bool) \<Rightarrow> frame \<Rightarrow> frame" where
  "keep_rows P f =
     f\<lparr>index := filter P (index f),
       cols := map (\<lambda>c. (fst c, map snd (filter (\<lambda>p. P (fst p)) (zip (index f) (snd c)))))
                 (cols f)\<rparr>"

text \<open>
  The row condition in the specification's words: a row is kept iff (months is absent or
  its month is among the months) and (days_of_week is absent or its day of week is among
  the selected days).
\<close>

definition claimed_keep :: "days_arg \<Rightarrow> months_arg \<Rightarrow> timestamp \<Rightarrow> bool" where
  "claimed_keep d m t =
     ((m = MNone \<or> month t \<in> set (months_list m))
      \<and> (d = DNone \<or> (case days_list d of Inl e \<Rightarrow> False | Inr ds \<Rightarrow> dayofweek t \<in> set ds)))"

text \<open>
  The numbering of days in the docstring of \<^verbatim>\<open>filter_days\<close>: "starting with Sunday
  as 0, and Saturday as 6".
\<close>

definition dayofweek_sunday0 :: "timestamp \<Rightarrow> int" where
  "dayofweek_sunday0 t = (dayofweek t + 1) mod 7"

text \<open>What lines 28-32 and 33-42 each decide about one row.\<close>

definition months_keep :: "months_arg \<Rightarrow> timestamp \<Rightarrow> bool" where
  "months_keep m t = (truthy_months m \<longrightarrow> month t \<in> set (months_list m))"

definition days_keep :: "days_arg \<Rightarrow> timestamp \<Rightarrow> bool" where
  "days_keep d t =
     (truthy_days d \<longrightarrow>
        (case days_list d of Inl e \<Rightarrow> False | Inr ds \<Rightarrow> dayofweek t \<in> set ds))"

subsection \<open>Sample tables\<close>

definition midnight :: "int \<Rightarrow> int \<Rightarrow> int \<Rightarrow> timestamp" where
  "midnight y m d =
     \<lparr>year = y, month = m, day = d, hour = 0, minute = 0, second = 0, microsecond = 0\<rparr>"

text \<open>Monday 2016-01-04 to Sunday 2016-01-10, one row a day, and Monday 2016-02-01.\<close>

definition week_frame :: frame where
  "week_frame =
     \<lparr>kind = DataFrame,
      index = [midnight 2016 1 4, midnight 2016 1 5, midnight 2016 1 6, midnight 2016 1 7,
               midnight 2016 1 8, midnight 2016 1 9, midnight 2016 1 10, midnight 2016 2 1],
      cols = [(''linear'', [0, 1, 2, 3, 4, 5, 6, 7]), (''sin_day'', [0, 1, 0, -1, 0, 1, 0, -1])]\<rparr>"

text \<open>Monday 2016-01-04 and Tuesday 2016-01-05.\<close>

definition two_days :: frame where
  "two_days =
     \<lparr>kind = Series, index = [midnight 2016 1 4, midnight 2016 1 5],
      cols = [(''consumption'', [10, 20])]\<rparr>"

section \<open>The plot helper\<close>

subsection \<open>Arguments\<close>

text \<open>
  \<^verbatim>\<open>dataframe_plotter\<close> takes dynamically typed arguments.  An element of a
  \<^verbatim>\<open>subplots\<close> or \<^verbatim>\<open>secondary_y\<close> list is a column name or a list of column
  names; the source tells them apart with \<^verbatim>\<open>type(x) is str\<close>.
\<close>

datatype entry = EStr string | ECols "string list"

datatype subplots_arg = SubBool bool | SubList "entry list"

datatype secondary_arg = SecBool bool | SecStr string | SecList "entry list"

datatype label_arg = LStr string | LList "string list"

record plot_args =
  title :: label_arg
  ylabel :: label_arg
  subplots :: subplots_arg
  secondary_y :: secondary_arg
  secondary_ylabel :: label_arg
  plot_type :: string

text \<open>The defaults of the signature (lines 53-56), for the arguments that shape the plot.\<close>

definition default_args :: plot_args where
  "default_args =
     \<lparr>title = LStr [], ylabel = LStr [], subplots = SubBool False,
      secondary_y = SecBool False, secondary_ylabel = LStr [], plot_type = ''line''\<rparr>"

text \<open>What is drawn: one record per subplot, in the order the subplots are drawn.\<close>

record subplot =
  primary_columns :: "string list"
  secondary_columns :: "string list"
  subplot_title :: string
  primary_label :: string
  secondary_label :: string

subsection \<open>Normalising the arguments (lines 127-169)\<close>

text \<open>Lines 127-130.\<close>

fun expand_subplots :: "string list \<Rightarrow> subplots_arg \<Rightarrow> entry list" where
  "expand_subplots df_columns (SubBool True) = map (\<lambda>col. ECols [col]) df_columns"
| "expand_subplots df_columns (SubBool False) = [ECols df_columns]"
| "expand_subplots df_columns (SubList l) = l"

text \<open>Lines 132-136.\<close>

fun expand_secondary :: "secondary_arg \<Rightarrow> secondary_arg" where
  "expand_secondary (SecStr s) = SecList [ECols [s]]"
| "expand_secondary (SecBool False) = SecList [ECols []]"
| "expand_secondary (SecBool True) = SecBool True"
| "expand_secondary (SecList l) = SecList l"

text \<open>
  \<^verbatim>\<open>_str_to_sparse_list\<close> (lines 145-154), called with \<^verbatim>\<open>list_of_lists=False\<close>
  throughout: the loop \<^verbatim>\<open>sparse_list[i] = string_or_list[i]\<close> over a list of
  \<^verbatim>\<open>length\<close> empty strings.  An assignment past the end raises IndexError.
\<close>

fun fill_sparse :: "'a list \<Rightarrow> nat \<Rightarrow> 'a list \<Rightarrow> error + 'a list" where
  "fill_sparse sparse_list i [] = Inr sparse_list"
| "fill_sparse sparse_list i (x # xs) =
     (if i < length sparse_list then fill_sparse (sparse_list[i := x]) (Suc i) xs
      else Inl IndexError)"

definition str_to_sparse_list :: "'a \<Rightarrow> 'a list \<Rightarrow> nat \<Rightarrow> error + 'a list" where
  "str_to_sparse_list empty_str string_or_list len =
     fill_sparse (replicate len empty_str) 0 string_or_list"

text \<open>Lines 147-148: a single string is a one-element list.\<close>

fun label_list :: "label_arg \<Rightarrow> string list" where
  "label_list (LStr s) = [s]"
| "label_list (LList l) = l"

text \<open>\<^verbatim>\<open>len(x)\<close> of a list element, and the element as a list (lines 186-187, 207-208).\<close>

fun entry_len :: "entry \<Rightarrow> nat" where
  "entry_len (EStr s) = length s"
| "entry_len (ECols cs) = length cs"

fun entry_cols :: "entry \<Rightarrow> string list" where
  "entry_cols (EStr s) = [s]"
| "entry_cols (ECols cs) = cs"

text \<open>
  Lines 166-167: \<^verbatim>\<open>for col2 in secondary_y[0]: subplots[0].remove(col2)\<close>.
  \<^verbatim>\<open>list.remove\<close> deletes the first occurrence and raises ValueError when there is
  none; a list is never equal to a column name.
\<close>

fun remove_all :: "entry list \<Rightarrow> string list \<Rightarrow> error + string list" where
  "remove_all [] p = Inr p"
| "remove_all (EStr col2 # es) p =
     (if col2 \<in> set p then remove_all es (remove1 col2 p) else Inl ValueError)"
| "remove_all (ECols cs # es) p = Inl ValueError"

text \<open>The names in a list of entries that are all strings.\<close>

fun entry_names :: "entry list \<Rightarrow> string list" where
  "entry_names [] = []"
| "entry_names (EStr s # es) = s # entry_names es"
| "entry_names (ECols cs # es) = entry_names es"

text \<open>
  Lines 162-167, the branch \<^verbatim>\<open>nb_plots == 1\<close>.  It returns the new
  \<^verbatim>\<open>subplots[0]\<close> and the new \<^verbatim>\<open>secondary_y[0]\<close>.  \<^verbatim>\<open>secondary_y[0]\<close> raises
  TypeError on \<^verbatim>\<open>True\<close> and IndexError on an empty list; when it is a string, the
  whole list becomes the secondary set of the one subplot.  A \<^verbatim>\<open>subplots[0]\<close> that
  is a string has no \<^verbatim>\<open>remove\<close>.
\<close>

definition single_subplot :: "entry \<Rightarrow> secondary_arg \<Rightarrow> error + entry \<times> entry" where
  "single_subplot sub0 secondary =
     (case secondary of
        SecBool b \<Rightarrow> Inl TypeError
      | SecStr s \<Rightarrow> Inl TypeError
      | SecList [] \<Rightarrow> Inl IndexError
      | SecList (e # es) \<Rightarrow>
          (let items = (case e of EStr s \<Rightarrow> e # es | ECols cs \<Rightarrow> map EStr cs)
           in case sub0 of
                EStr s \<Rightarrow> (if items = [] then Inr (sub0, ECols []) else Inl AttributeError)
              | ECols p \<Rightarrow>
                  (case remove_all items p of
                     Inl err \<Rightarrow> Inl err
                   | Inr p' \<Rightarrow> Inr (ECols p', ECols (entry_names items)))))"

text \<open>
  Lines 168-169, the branch for several subplots: \<^verbatim>\<open>secondary_y\<close> is padded with
  empty strings to one element per subplot.  \<^verbatim>\<open>len(True)\<close> raises TypeError.
\<close>

definition several_subplots :: "nat \<Rightarrow> secondary_arg \<Rightarrow> error + entry list" where
  "several_subplots nb_plots secondary =
     (case secondary of
        SecBool b \<Rightarrow> Inl TypeError
      | SecStr s \<Rightarrow> Inl TypeError
      | SecList l \<Rightarrow> str_to_sparse_list (EStr []) l nb_plots)"

text \<open>One subplot after normalisation: what the loop of line 175 reads at index \<open>i\<close>.\<close>

record slot =
  slot_columns :: entry
  slot_secondary :: entry
  slot_title :: string
  slot_ylabel :: string
  slot_secondary_ylabel :: string

definition make_slots ::
  "entry list \<Rightarrow> entry list \<Rightarrow> string list \<Rightarrow> string list \<Rightarrow> string list \<Rightarrow> slot list" where
  "make_slots subs secs titles ylabels sylabels =
     map (\<lambda>i. \<lparr>slot_columns = subs ! i, slot_secondary = secs ! i, slot_title = titles ! i,
               slot_ylabel = ylabels ! i, slot_secondary_ylabel = sylabels ! i\<rparr>)
         [0..<length subs]"

text \<open>
  Lines 127-169.  \<^verbatim>\<open>plt.subplots(0, ...)\<close> on line 161 is rejected by the plotting
  library (ValueError).
\<close>

definition normalize :: "string list \<Rightarrow> plot_args \<Rightarrow> error + slot list" where
  "normalize df_columns args =
     (let subs = expand_subplots df_columns (subplots args);
          secondary = expand_secondary (secondary_y args);
          nb_plots = length subs
      in case str_to_sparse_list [] (label_list (title args)) nb_plots of
           Inl e \<Rightarrow> Inl e
         | Inr titles \<Rightarrow>
        (case str_to_sparse_list [] (label_list (ylabel args)) nb_plots of
           Inl e \<Rightarrow> Inl e
         | Inr ylabels \<Rightarrow>
        (case str_to_sparse_list [] (label_list (secondary_ylabel args)) nb_plots of
           Inl e \<Rightarrow> Inl e
         | Inr sylabels \<Rightarrow>
        (if nb_plots = 0 then Inl ValueError
         else if nb_plots = 1 then
           (case single_subplot (subs ! 0) secondary of
              Inl e \<Rightarrow> Inl e
            | Inr (sub0, sec0) \<Rightarrow> Inr (make_slots [sub0] [sec0] titles ylabels sylabels))
         else
           (case several_subplots nb_plots secondary of
              Inl e \<Rightarrow> Inl e
            | Inr secs \<Rightarrow> Inr (make_slots subs secs titles ylabels sylabels))))))"

subsection \<open>Drawing (lines 174-230)\<close>

text \<open>
  The calls into the plotting library are taken to succeed; what is recorded of them is
  which columns are drawn on which axis of which subplot, and the labels set.

  The plot types that take each column's colour with \<^verbatim>\<open>colors.pop(0)\<close>; every other
  value of \<^verbatim>\<open>plot_type\<close> is a line plot.
\<close>

definition pops_colors :: "string \<Rightarrow> bool" where
  "pops_colors pt = (pt \<in> set [''overlay'', ''average'', ''bar''])"

text \<open>
  Lines 188-199: the columns of one axis are drawn in order.  \<^verbatim>\<open>df[col]\<close> raises
  KeyError for a name that is no column; \<^verbatim>\<open>colors.pop(0)\<close> raises IndexError once
  the colour list is used up.  The result is the list of columns drawn.
\<close>

fun draw_columns :: "frame \<Rightarrow> bool \<Rightarrow> nat \<Rightarrow> string list \<Rightarrow> error + string list" where
  "draw_columns df pops colors [] = Inr []"
| "draw_columns df pops colors (col # cs) =
     (case getitem df col of
        Inl e \<Rightarrow> Inl e
      | Inr vs \<Rightarrow>
          (if pops \<and> colors = 0 then Inl IndexError
           else (case draw_columns df pops (if pops then colors - 1 else colors) cs of
                   Inl e \<Rightarrow> Inl e
                 | Inr drawn \<Rightarrow> Inr (col # drawn))))"

text \<open>
  Lines 201-225: the right axis.  With \<^verbatim>\<open>plot_type == 'bar'\<close> the first secondary
  column reaches \<^verbatim>\<open>raise ("...")\<close>, which is a TypeError since a string is no
  exception.
\<close>

definition draw_secondary :: "frame \<Rightarrow> string \<Rightarrow> entry \<Rightarrow> error + string list" where
  "draw_secondary df pt sec =
     (if entry_len sec > 0 then
        (if pt = ''bar'' then Inl TypeError
         else draw_columns df (pops_colors pt) 6 (entry_cols sec))
      else Inr [])"

text \<open>
  One pass of the loop of line 175.  With \<^verbatim>\<open>plot_type == 'bar'\<close>, line 181 divides
  by \<^verbatim>\<open>len(subplots[i])\<close>.  The secondary axis gets its label only when it exists.
\<close>

definition draw_subplot :: "frame \<Rightarrow> string \<Rightarrow> slot \<Rightarrow> error + subplot" where
  "draw_subplot df pt sl =
     (if pt = ''bar'' \<and> entry_len (slot_columns sl) = 0 then Inl ZeroDivisionError
      else case draw_columns df (pops_colors pt) 13 (entry_cols (slot_columns sl)) of
             Inl e \<Rightarrow> Inl e
           | Inr prim \<Rightarrow>
               (case draw_secondary df pt (slot_secondary sl) of
                  Inl e \<Rightarrow> Inl e
                | Inr sec \<Rightarrow>
                    Inr \<lparr>primary_columns = prim, secondary_columns = sec,
                         subplot_title = slot_title sl, primary_label = slot_ylabel sl,
                         secondary_label =
                           (if entry_len (slot_secondary sl) > 0 then slot_secondary_ylabel sl
                            else [])\<rparr>))"

fun draw_all :: "frame \<Rightarrow> string \<Rightarrow> slot list \<Rightarrow> error + subplot list" where
  "draw_all df pt [] = Inr []"
| "draw_all df pt (sl # sls) =
     (case draw_subplot df pt sl of
        Inl e \<Rightarrow> Inl e
      | Inr sp \<Rightarrow>
          (case draw_all df pt sls of Inl e \<Rightarrow> Inl e | Inr sps \<Rightarrow> Inr (sp # sps)))"

subsection \<open>Objects and the whole function\<close>

text \<open>
  \<^verbatim>\<open>dataframe_plotter\<close> assigns a column to the table it was handed (line 172), so
  tables are objects here: a store lists the objects that exist, a reference is a
  position in the store, a new object goes to the end.
\<close>

type_synonym store = "frame list"

definition alloc :: "store \<Rightarrow> frame \<Rightarrow> store \<times> nat" where
  "alloc st f = (st @ [f], length st)"

text \<open>\<^verbatim>\<open>np.arange(len(df))\<close>.\<close>

definition arange :: "nat \<Rightarrow> real list" where
  "arange n = map real [0..<n]"

text \<open>
  \<^verbatim>\<open>dataframe_plotter\<close>, lines 124-234: the store after the call and either the
  exception raised or the subplots drawn.  Lines 124-125 make a new table from a series;
  line 172 writes to the table \<^verbatim>\<open>df\<close> then refers to.
\<close>

definition dataframe_plotter ::
  "store \<Rightarrow> nat \<Rightarrow> plot_args \<Rightarrow> store \<times> (error + subplot list)" where
  "dataframe_plotter st df args =
     (let (st, df) = (if kind (st ! df) = Series
                      then alloc st ((st ! df)\<lparr>kind := DataFrame\<rparr>) else (st, df))
      in case normalize (columns (st ! df)) args of
           Inl e \<Rightarrow> (st, Inl e)
         | Inr slots \<Rightarrow>
             (let st = (if plot_type args = ''bar''
                        then st[df := setitem (st ! df) ''x_axis''
                                       (arange (length (index (st ! df))))]
                        else st)
              in (st, draw_all (st ! df) (plot_type args) slots)))"

subsection \<open>Notions used to state the properties of the plot helper\<close>




text \<open>The table the loop of line 175 reads: the caller's, after line 172.\<close>

definition drawn_frame :: "frame \<Rightarrow> plot_args \<Rightarrow> frame" where
  "drawn_frame f args =
     (if plot_type args = ''bar''
      then setitem (f\<lparr>kind := DataFrame\<rparr>) ''x_axis'' (arange (length (index f)))
      else f\<lparr>kind := DataFrame\<rparr>)"


subsection \<open>Sample tables and calls\<close>

definition hourly :: "int \<Rightarrow> int \<Rightarrow> int \<Rightarrow> int \<Rightarrow> timestamp" where
  "hourly y m d h =
     \<lparr>year = y, month = m, day = d, hour = h, minute = 0, second = 0, microsecond = 0\<rparr>"

text \<open>The first three rows of the table of the docstring (lines 92-97).\<close>

definition fake_data :: frame where
  "fake_data =
     \<lparr>kind = DataFrame,
      index = [hourly 1990 2 15 0, hourly 1990 2 15 1, hourly 1990 2 15 2],
      cols = [(''col1'', [0, 1, 2]), (''col2'', [0, 1 / 10, 4 / 10]),
              (''col3'', [0, 1 / 700, 8 / 700]), (''col4'', [0, 1 / 1000, 16 / 1000])]\<rparr>"





section \<open>The time-of-day helpers\<close>

text \<open>
  \<^verbatim>\<open>datetime_to_hour\<close> (lines 8-11) computes in Python floats.  Every operation on
  floats yields the exact result rounded to a representable number; the rounding is the
  parameter \<open>rnd\<close>, applied where the source has an operation.  The integer fields and
  the literals are representable and enter unrounded.  With \<open>rnd\<close> the identity the
  function is the exact expression.
\<close>

definition datetime_to_hour :: "(real \<Rightarrow> real) \<Rightarrow> timestamp \<Rightarrow> real" where
  "datetime_to_hour rnd date_time =
     rnd (rnd (rnd (real_of_int (hour date_time) + rnd (real_of_int (minute date_time) / 60))
               + rnd (real_of_int (second date_time) / 3600))
          + rnd (real_of_int (microsecond date_time) / rnd (3600 * 1000000)))"

text \<open>
  What is known of the rounding of IEEE double precision away from overflow and
  underflow: the relative error of a rounded result is at most \<open>2\<^sup>-\<^sup>5\<^sup>3\<close>.
\<close>

definition float_rounding :: "(real \<Rightarrow> real) \<Rightarrow> bool" where
  "float_rounding rnd = (\<forall>x. \<bar>rnd x - x\<bar> \<le> \<bar>x\<bar> / 2 ^ 53)"

text \<open>
  Rounding to the nearest number with a significand of 53 bits, the exponent being
  unbounded: the rounding of double precision within its range.
\<close>

definition ulp :: "real \<Rightarrow> real" where
  "ulp x = 2 powr (of_int \<lfloor>log 2 \<bar>x\<bar>\<rfloor> - 52)"

definition round_to_double :: "real \<Rightarrow> real" where
  "round_to_double x = (if x = 0 then 0 else of_int (round (x / ulp x)) * ulp x)"

text \<open>The fractional hour in the specification's words.\<close>

definition fractional_hour :: "timestamp \<Rightarrow> real" where
  "fractional_hour t =
     real_of_int (hour t) + real_of_int (minute t) / 60 + real_of_int (second t) / 3600
       + real_of_int (microsecond t) / 3600000000"

text \<open>The order of timestamps, and two timestamps of one calendar day.\<close>

fun lex_le :: "int list \<Rightarrow> int list \<Rightarrow> bool" where
  "lex_le [] ys = True"
| "lex_le (x # xs) [] = False"
| "lex_le (x # xs) (y # ys) = (x < y \<or> (x = y \<and> lex_le xs ys))"

definition timestamp_le :: "timestamp \<Rightarrow> timestamp \<Rightarrow> bool" where
  "timestamp_le t1 t2 =
     lex_le [year t1, month t1, day t1, hour t1, minute t1, second t1, microsecond t1]
            [year t2, month t2, day t2, hour t2, minute t2, second t2, microsecond t2]"

definition same_day :: "timestamp \<Rightarrow> timestamp \<Rightarrow> bool" where
  "same_day t1 t2 = (year t1 = year t2 \<and> month t1 = month t2 \<and> day t1 = day t2)"

definition microseconds_of_day :: "timestamp \<Rightarrow> int" where
  "microseconds_of_day t =
     ((hour t * 60 + minute t) * 60 + second t) * 1000000 + microsecond t"

text \<open>The docstring's example, 03:15 pm, and the last microsecond of the same day.\<close>

definition quarter_past_three :: timestamp where
  "quarter_past_three =
     \<lparr>year = 1990, month = 2, day = 15, hour = 15, minute = 15, second = 0,
      microsecond = 0\<rparr>"

definition last_microsecond :: timestamp where
  "last_microsecond =
     \<lparr>year = 1990, month = 2, day = 15, hour = 23, minute = 59, second = 59,
      microsecond = 999999\<rparr>"

subsection \<open>The average day (lines 249-256)\<close>

text \<open>\<^verbatim>\<open>series.to_frame()\<close>: a new one-column table with the values of the series.\<close>

definition to_frame :: "frame \<Rightarrow> frame" where
  "to_frame series = series\<lparr>kind := DataFrame\<rparr>"

text \<open>
  \<^verbatim>\<open>df.groupby(key).mean()\<close> is library code: one row per distinct value of the key
  column, in ascending order of that value, holding for every other column the mean of
  its values in the rows of the group.  The mean is taken as the exact arithmetic mean.
  The result is given row by row: the key and the means, as \<^verbatim>\<open>gp.index\<close> and
  \<^verbatim>\<open>gp.values\<close> hold them.
\<close>

definition mean :: "real list \<Rightarrow> real" where
  "mean xs = sum_list xs / real (length xs)"

definition groupby_mean :: "frame \<Rightarrow> string \<Rightarrow> error + (real \<times> real list) list" where
  "groupby_mean df key =
     (case getitem df key of
        Inl e \<Rightarrow> Inl e
      | Inr keycol \<Rightarrow>
          Inr (map (\<lambda>k. (k, map (\<lambda>c. mean (select (map (\<lambda>h. h = k) keycol) (snd c)))
                               (filter (\<lambda>c. fst c \<noteq> key) (cols df))))
                   (sort (remdups keycol))))"

text \<open>
  \<^verbatim>\<open>average_day_plotter\<close>: the points handed to \<^verbatim>\<open>plot.plot\<close> on line 254.
  \<^verbatim>\<open>datetime_to_hour\<close> is applied to the whole index, entry by entry.
\<close>

definition average_day_plotter ::
  "(real \<Rightarrow> real) \<Rightarrow> frame \<Rightarrow> error + (real \<times> real list) list" where
  "average_day_plotter rnd series =
     (let df = to_frame series;
          df = setitem df ''hour'' (map (datetime_to_hour rnd) (index series))
      in groupby_mean df ''hour'')"

text \<open>The values of the samples of a series whose fractional hour is \<open>k\<close>, in order.\<close>

definition bucket :: "(real \<Rightarrow> real) \<Rightarrow> frame \<Rightarrow> real \<Rightarrow> real list" where
  "bucket rnd series k =
     map snd (filter (\<lambda>p. datetime_to_hour rnd (fst p) = k)
                (zip (index series) (snd (hd (cols series)))))"

text \<open>A series without samples, and a series of two days sampled at 00:00 and 12:30.\<close>

definition empty_series :: frame where
  "empty_series = \<lparr>kind = Series, index = [], cols = [(''consumption'', [])]\<rparr>"

definition half_past :: "int \<Rightarrow> int \<Rightarrow> timestamp" where
  "half_past d h =
     \<lparr>year = 1990, month = 2, day = d, hour = h, minute = 30, second = 0, microsecond = 0\<rparr>"

definition two_day_series :: frame where
  "two_day_series =
     \<lparr>kind = Series,
      index = [hourly 1990 2 15 0, half_past 15 12, hourly 1990 2 16 0, half_past 16 12],
      cols = [(''consumption'', [1, 2, 3, 6])]\<rparr>"

subsection \<open>The filter and the average day on objects\<close>

text \<open>
  What \<^verbatim>\<open>filter_days\<close> and \<^verbatim>\<open>average_day_plotter\<close> do to the objects of the
  store, statement by statement: \<^verbatim>\<open>pd.DataFrame(...)\<close>, \<^verbatim>\<open>df[mask]\<close>,
  \<^verbatim>\<open>obj.loc[...]\<close> and \<^verbatim>\<open>series.to_frame()\<close> make a new object, and
  \<^verbatim>\<open>df[name] = values\<close> writes to the object \<^verbatim>\<open>df\<close> refers to.  They take and
  return references.
\<close>

definition filter_months_st :: "store \<Rightarrow> nat \<Rightarrow> months_arg \<Rightarrow> store \<times> (error + nat)" where
  "filter_months_st st df_temp months =
     (if truthy_months months then
        (let st = st[df_temp := setitem (st ! df_temp) ''month''
                                  (map (\<lambda>t. of_int (month t)) (index (st ! df_temp)))]
         in case getitem (st ! df_temp) ''month'' of
              Inl e \<Rightarrow> (st, Inl e)
            | Inr col \<Rightarrow>
                (case alloc st (getitem_mask (st ! df_temp) (isin col (months_list months))) of
                   (st, df_temp) \<Rightarrow> (st, Inr df_temp)))
      else (st, Inr df_temp))"

definition filter_dayofweek_st :: "store \<Rightarrow> nat \<Rightarrow> days_arg \<Rightarrow> store \<times> (error + nat)" where
  "filter_dayofweek_st st df_temp days_of_week =
     (if truthy_days days_of_week then
        (let st = st[df_temp := setitem (st ! df_temp) ''dayofweek''
                                  (map (\<lambda>t. of_int (dayofweek t)) (index (st ! df_temp)))]
         in case getitem (st ! df_temp) ''dayofweek'' of
              Inl e \<Rightarrow> (st, Inl e)
            | Inr col \<Rightarrow>
                (case days_list days_of_week of
                   Inl e \<Rightarrow> (st, Inl e)
                 | Inr days \<Rightarrow>
                     (case alloc st (getitem_mask (st ! df_temp) (isin col days)) of
                        (st, df_temp) \<Rightarrow> (st, Inr df_temp))))
      else (st, Inr df_temp))"

definition filter_days_st ::
  "store \<Rightarrow> nat \<Rightarrow> days_arg \<Rightarrow> months_arg \<Rightarrow> store \<times> (error + nat)" where
  "filter_days_st st df_or_series days_of_week months =
     (case alloc st (DataFrame_of_index (index (st ! df_or_series))) of
        (st, df_temp) \<Rightarrow>
          (case filter_months_st st df_temp months of
             (st, Inl e) \<Rightarrow> (st, Inl e)
           | (st, Inr df_temp) \<Rightarrow>
               (case filter_dayofweek_st st df_temp days_of_week of
                  (st, Inl e) \<Rightarrow> (st, Inl e)
                | (st, Inr df_temp) \<Rightarrow>
                    (case alloc st (loc (st ! df_or_series) (index (st ! df_temp))) of
                       (st, result) \<Rightarrow> (st, Inr result)))))"

definition average_day_plotter_st ::
  "(real \<Rightarrow> real) \<Rightarrow> store \<Rightarrow> nat \<Rightarrow> store \<times> (error + (real \<times> real list) list)" where
  "average_day_plotter_st rnd st series =
     (case alloc st (to_frame (st ! series)) of
        (st, df) \<Rightarrow>
          (let st = st[df := setitem (st ! df) ''hour''
                               (map (datetime_to_hour rnd) (index (st ! series)))]
           in (st, groupby_mean (st ! df) ''hour'')))"

text \<open>The table a store operation returned, or the exception.\<close>

definition deref :: "store \<times> (error + nat) \<Rightarrow> error + frame" where
  "deref r = (case snd r of Inl e \<Rightarrow> Inl e | Inr p \<Rightarrow> Inr (fst r ! p))"

text \<open>A bar plot with every other argument at its default.\<close>

definition bar_args :: plot_args where
  "bar_args = default_args\<lparr>plot_type := ''bar''\<rparr>"

subsection \<open>The overlay of days on objects (lines 237-246)\<close>

text \<open>
  \<^verbatim>\<open>np.unique(series.index.date)\<close>: the calendar dates present in the index, in
  ascending order, each once.  A date is given by its ordinal.
\<close>

definition dates_of :: "frame \<Rightarrow> int list" where
  "dates_of series = sort (remdups (map toordinal (index series)))"

text \<open>\<^verbatim>\<open>series.loc[date]\<close> with a date string: a new object with the rows of that date.\<close>

definition date_rows :: "frame \<Rightarrow> int \<Rightarrow> frame" where
  "date_rows series d = getitem_mask series (map (\<lambda>t. toordinal t = d) (index series))"

text \<open>\<^verbatim>\<open>series.values\<close>: the values of the one column of a series.\<close>

definition series_values :: "frame \<Rightarrow> real list" where
  "series_values series = (case cols series of [] \<Rightarrow> [] | c # cs \<Rightarrow> snd c)"

text \<open>
  The loop of lines 239-241: for every date, \<^verbatim>\<open>series.loc[date]\<close> is evaluated twice
  and one line is drawn, the fractional hours against the values.
\<close>

fun overlay_lines ::
  "(real \<Rightarrow> real) \<Rightarrow> store \<Rightarrow> nat \<Rightarrow> int list \<Rightarrow> store \<times> (real list \<times> real list) list" where
  "overlay_lines rnd st series [] = (st, [])"
| "overlay_lines rnd st series (d # dates) =
     (case alloc st (date_rows (st ! series) d) of
        (st, day_index) \<Rightarrow>
          (case alloc st (date_rows (st ! series) d) of
             (st, day_values) \<Rightarrow>
               (let line = (map (datetime_to_hour rnd) (index (st ! day_index)),
                            series_values (st ! day_values))
                in case overlay_lines rnd st series dates of
                     (st, lines) \<Rightarrow> (st, line # lines))))"

text \<open>
  \<^verbatim>\<open>overlay_days_plotter\<close>: the store after the call and the lines drawn; a label
  that is not empty adds the point (0, 0) that carries the legend entry.
\<close>

definition overlay_days_plotter_st ::
  "(real \<Rightarrow> real) \<Rightarrow> store \<Rightarrow> nat \<Rightarrow> string \<Rightarrow> store \<times> (real list \<times> real list) list" where
  "overlay_days_plotter_st rnd st series label =
     (case overlay_lines rnd st series (dates_of (st ! series)) of
        (st, lines) \<Rightarrow> (st, if label \<noteq> [] then lines @ [([0], [0])] else lines))"

section \<open>Properties of the day and month filter\<close>

lemma getitem_setitem: "getitem (setitem f n vs) n = Inr vs"
  by (simp add: getitem_def setitem_def update_conv')

lemma index_setitem: "index (setitem f n vs) = index f"
  by (simp add: setitem_def)

lemma select_map: "select (map P xs) xs = filter P xs"
  by (induction xs) (auto simp: select_def)

lemma select_map_zip:
  "length ys = length xs \<Longrightarrow>
   select (map P xs) ys = map snd (filter (\<lambda>p. P (fst p)) (zip xs ys))"
  by (induction ys xs rule: list_induct2) (auto simp: select_def)

lemma index_getitem_mask: "index (getitem_mask f keep) = select keep (index f)"
  by (simp add: getitem_mask_def)

lemma isin_map: "isin (map (\<lambda>t. of_int (g t)) xs) l = map (\<lambda>t. g t \<in> set l) xs"
  by (auto simp: isin_def)

lemma filter_months_index:
  "\<exists>g. filter_months (DataFrame_of_index idx) m = Inr g
       \<and> index g = filter (months_keep m) idx"
  by (auto simp: filter_months_def Let_def getitem_setitem index_setitem index_getitem_mask
      isin_map select_map months_keep_def[abs_def] DataFrame_of_index_def)

lemma filter_dayofweek_index:
  "filter_dayofweek g d =
     (if truthy_days d then
        (case days_list d of
           Inl e \<Rightarrow> Inl e
         | Inr ds \<Rightarrow>
             Inr (getitem_mask
                    (setitem g ''dayofweek'' (map (\<lambda>t. of_int (dayofweek t)) (index g)))
                    (map (\<lambda>t. dayofweek t \<in> set ds) (index g))))
      else Inr g)"
  by (auto simp: filter_dayofweek_def Let_def getitem_setitem index_setitem isin_map
      split: sum.splits)

text \<open>With a duplicate-free index, each label handed to \<^verbatim>\<open>loc\<close> finds its one row.\<close>

lemma single_row:
  "distinct (map fst ps) \<Longrightarrow> q \<in> set ps \<Longrightarrow> filter (\<lambda>p. fst p = fst q) ps = [q]"
proof (induction ps)
  case Nil
  then show ?case by simp
next
  case (Cons p ps)
  show ?case
  proof (cases "p = q")
    case True
    have "filter (\<lambda>p. fst p = fst q) ps = []"
      using Cons.prems(1) True by (auto simp: filter_empty_conv image_iff)
    with True show ?thesis by simp
  next
    case False
    with Cons.prems have q: "q \<in> set ps" by simp
    with Cons.prems(1) have "fst p \<noteq> fst q" by (auto simp: image_iff)
    with Cons q show ?thesis by simp
  qed
qed

lemma loc_rows:
  "distinct (map fst ps) \<Longrightarrow> set qs \<subseteq> set ps \<Longrightarrow>
   concat (map (\<lambda>l. map snd (filter (\<lambda>p. fst p = l) ps)) (filter P (map fst qs)))
     = map snd (filter (\<lambda>p. P (fst p)) qs)"
  by (induction qs) (auto simp: single_row)

lemma take_label_filter:
  assumes "distinct idx" "length xs = length idx"
  shows "concat (map (take_label idx xs) (filter P idx)) = select (map P idx) xs"
proof -
  have "map fst (zip idx xs) = idx" using assms by simp
  with loc_rows[of "zip idx xs" "zip idx xs" P] assms
  show ?thesis by (simp add: take_label_def[abs_def] select_map_zip)
qed

lemma loc_filter:
  assumes "wf_frame f" "distinct (index f)"
  shows "loc f (filter P (index f)) = keep_rows P f"
proof -
  have "\<And>c. c \<in> set (cols f) \<Longrightarrow>
          concat (map (take_label (index f) (snd c)) (filter P (index f)))
            = map snd (filter (\<lambda>p. P (fst p)) (zip (index f) (snd c)))"
    using assms by (simp add: take_label_filter select_map_zip wf_frame_def)
  moreover have "concat (map (take_label (index f) (index f)) (filter P (index f)))
      = filter P (index f)"
    using assms by (simp add: take_label_filter select_map)
  ultimately show ?thesis
    by (simp add: loc_def keep_rows_def)
qed

text \<open>The result of \<^verbatim>\<open>filter_days\<close> in closed form.\<close>

lemma filter_days_closed:
  assumes "wf_frame f" "distinct (index f)"
  shows "filter_days f d m =
     (if truthy_days d \<and> isl (days_list d) then Inl (projl (days_list d))
      else Inr (keep_rows (\<lambda>t. months_keep m t \<and> days_keep d t) f))"
proof -
  obtain g where g: "filter_months (DataFrame_of_index (index f)) m = Inr g"
    "index g = filter (months_keep m) (index f)"
    using filter_months_index by blast
  show ?thesis
  proof (cases "truthy_days d")
    case False
    then have "filter_days f d m = Inr (loc f (filter (months_keep m) (index f)))"
      by (simp add: filter_days_def g filter_dayofweek_index)
    with False assms show ?thesis
      by (simp add: loc_filter days_keep_def)
  next
    case True
    show ?thesis
    proof (cases "days_list d")
      case (Inl e)
      with True show ?thesis by (simp add: filter_days_def g filter_dayofweek_index)
    next
      case (Inr ds)
      with True have "filter_days f d m
          = Inr (loc f (filter (\<lambda>t. months_keep m t \<and> dayofweek t \<in> set ds) (index f)))"
        by (simp add: filter_days_def g filter_dayofweek_index index_getitem_mask
            index_setitem select_map conj_commute)
      with True Inr assms show ?thesis
        by (simp add: loc_filter days_keep_def[abs_def])
    qed
  qed
qed

lemma keep_rows_all:
  assumes "wf_frame f" "\<forall>t \<in> set (index f). P t"
  shows "keep_rows P f = f"
proof -
  have "map snd (filter (\<lambda>p. P (fst p)) (zip (index f) (snd c))) = snd c"
    if "c \<in> set (cols f)" for c
  proof -
    from that have len: "length (snd c) = length (index f)"
      using assms(1) by (simp add: wf_frame_def)
    have "filter (\<lambda>p. P (fst p)) (zip (index f) (snd c)) = zip (index f) (snd c)"
      using assms(2) by (auto simp: filter_id_conv dest: set_zip_leftD)
    with len show ?thesis by simp
  qed
  then have "map (\<lambda>c. (fst c, map snd (filter (\<lambda>p. P (fst p)) (zip (index f) (snd c)))))
               (cols f) = cols f"
    by (simp add: map_idI)
  moreover have "filter P (index f) = index f"
    using assms(2) by (simp add: filter_id_conv)
  ultimately show ?thesis by (simp add: keep_rows_def)
qed

lemma wf_week_frame: "wf_frame week_frame \<and> distinct (index week_frame)"
  by (simp add: wf_frame_def week_frame_def midnight_def)

lemma wf_two_days: "wf_frame two_days \<and> distinct (index two_days)"
  by (simp add: wf_frame_def two_days_def midnight_def)

text \<open>
  C8.  With both selectors absent (\<^verbatim>\<open>days_of_week=None\<close>, \<^verbatim>\<open>months=None\<close>) the
  filter returns its whole input unchanged: it is the identity on every table or series
  (whose index has no duplicate timestamp, as the data model requires).
\<close>

theorem filter_days_identity:
  assumes "wf_frame f" "distinct (index f)"
  shows "filter_days f DNone MNone = Inr f"
  using assms by (simp add: filter_days_closed keep_rows_all months_keep_def days_keep_def)

theorem filter_days_identity_witness:
  "wf_frame week_frame \<and> distinct (index week_frame)
   \<and> filter_days week_frame DNone MNone = Inr week_frame"
  using filter_days_identity [of week_frame] wf_week_frame by simp

lemma filter_days_falsy_days:
  "\<not> truthy_days d \<Longrightarrow> filter_days f d m = filter_days f DNone m"
  by (simp add: filter_days_def filter_dayofweek_def cong: sum.case_cong)

lemma filter_days_falsy_months:
  "\<not> truthy_months m \<Longrightarrow> filter_days f d m = filter_days f d MNone"
  by (simp add: filter_days_def filter_months_def)

lemma dayofweek_week_frame:
  "map dayofweek (index week_frame) = [0, 1, 2, 3, 4, 5, 6, 0]"
  by (simp add: week_frame_def midnight_def dayofweek_def toordinal_def days_before_year_def
      days_before_month_def days_in_month_def is_leap_def)

lemma dayofweek_two_days:
  "dayofweek (midnight 2016 1 4) = 0 \<and> dayofweek (midnight 2016 1 5) = 1"
  by (simp add: midnight_def dayofweek_def toordinal_def days_before_year_def
      days_before_month_def days_in_month_def is_leap_def)

text \<open>
  C6.  A falsy selector switches its filter off: \<^verbatim>\<open>days_of_week=0\<close>,
  \<^verbatim>\<open>days_of_week=[]\<close> and \<^verbatim>\<open>months=[]\<close> are treated exactly like an absent
  selector, so \<^verbatim>\<open>filter_days(table, days_of_week=0, months=None)\<close> returns the whole
  input and not only the rows of day 0.
\<close>

theorem filter_days_falsy_selector:
  "filter_days f (DInt 0) m = filter_days f DNone m
   \<and> filter_days f (DList []) m = filter_days f DNone m
   \<and> filter_days f d (MList []) = filter_days f d MNone
   \<and> (wf_frame f \<and> distinct (index f) \<longrightarrow> filter_days f (DInt 0) MNone = Inr f)"
  using filter_days_falsy_days [of "DInt 0" f m] filter_days_falsy_days [of "DList []" f m]
    filter_days_falsy_months [of "MList []" f d]
  by (simp add: filter_days_closed keep_rows_all months_keep_def days_keep_def)

theorem filter_days_falsy_selector_witness:
  "filter_days week_frame (DInt 0) MNone = Inr week_frame
   \<and> map dayofweek (index week_frame) = [0, 1, 2, 3, 4, 5, 6, 0]"
proof -
  from filter_days_falsy_selector [of week_frame MNone DNone] wf_week_frame
  have "filter_days week_frame (DInt 0) MNone = Inr week_frame" by blast
  with dayofweek_week_frame show ?thesis by simp
qed

lemma filter_days_week_months_empty:
  "filter_days week_frame DNone (MList []) = Inr week_frame"
  using wf_week_frame
  by (simp add: filter_days_closed keep_rows_all months_keep_def days_keep_def)

text \<open>
  C7, as the specification words it, fails on the code: a selector that is present but
  empty does not select "no row", it switches the filter off.  With \<^verbatim>\<open>months=[]\<close>
  the filter returns every row of the sample table, although no row's month is in the
  empty list.
\<close>

theorem filter_days_empty_months_counterexample:
  "filter_days week_frame DNone (MList [])
     \<noteq> Inr (keep_rows (claimed_keep DNone (MList [])) week_frame)"
  unfolding filter_days_week_months_empty
  by (simp add: keep_rows_def claimed_keep_def week_frame_def)

text \<open>
  C7, amended.  For every table with a duplicate-free index, and selectors other than the
  integer 0 (a list of integers, a non-zero integer, one of the four preset strings, or
  absent), the filter keeps a row if and only if (months is absent or an empty list or
  the row's month is in months) and (days_of_week is absent or an empty list or the row's
  day of week is in the selected set).  The kept rows appear in their original order with
  all original columns and values; when no row matches, the result is the empty subset
  and not an error.
\<close>

theorem filter_days_keeps:
  assumes "wf_frame f" "distinct (index f)" "d \<noteq> DInt 0" "m \<noteq> MInt 0"
    and "days_list d = Inr ds"
  shows "filter_days f d m =
     Inr (keep_rows (\<lambda>t. (m = MNone \<or> m = MList [] \<or> month t \<in> set (months_list m))
                        \<and> (d = DNone \<or> d = DList [] \<or> dayofweek t \<in> set ds)) f)"
proof -
  have m: "months_keep m t = (m = MNone \<or> m = MList [] \<or> month t \<in> set (months_list m))"
    for t
    using assms(4) by (cases m) (auto simp: months_keep_def)
  have d: "days_keep d t = (d = DNone \<or> d = DList [] \<or> dayofweek t \<in> set ds)" for t
    using assms(3,5) by (cases d) (auto simp: days_keep_def split: if_splits)
  show ?thesis using assms by (simp add: filter_days_closed m d)
qed

theorem filter_days_keeps_witness:
  "filter_days week_frame (DStr ''weekend'') (MInt 1) =
     Inr \<lparr>kind = DataFrame, index = [midnight 2016 1 9, midnight 2016 1 10],
          cols = [(''linear'', [5, 6]), (''sin_day'', [1, 0])]\<rparr>"
  using filter_days_keeps [of week_frame "DStr ''weekend''" "MInt 1" "[5, 6]"]
    wf_week_frame dayofweek_week_frame
  by (simp add: keep_rows_def week_frame_def midnight_def)

lemma filter_days_two_days_closed:
  "filter_days two_days (DInt 1) MNone = Inr (keep_rows (\<lambda>t. dayofweek t = 1) two_days)"
  using wf_two_days by (simp add: filter_days_closed days_keep_def months_keep_def)

lemma keep_rows_two_days:
  "keep_rows (\<lambda>t. dayofweek t = 1) two_days =
     \<lparr>kind = Series, index = [midnight 2016 1 5], cols = [(''consumption'', [20])]\<rparr>"
  by (simp add: keep_rows_def two_days_def dayofweek_two_days)

text \<open>
  C2.  The docstring numbers the days "starting with Sunday as 0, and Saturday as 6", so
  \<^verbatim>\<open>days_of_week=1\<close> should keep the Mondays.  The code compares the integer with
  \<^verbatim>\<open>DatetimeIndex.dayofweek\<close>, which counts from Monday: on a series holding Monday
  2016-01-04 (day 1 in the docstring's numbering) and Tuesday 2016-01-05 (day 2), it keeps
  the Tuesday.
\<close>

theorem filter_days_int_counts_from_monday:
  "dayofweek_sunday0 (midnight 2016 1 4) = 1 \<and> dayofweek_sunday0 (midnight 2016 1 5) = 2
   \<and> filter_days two_days (DInt 1) MNone =
       Inr \<lparr>kind = Series, index = [midnight 2016 1 5], cols = [(''consumption'', [20])]\<rparr>"
  by (simp add: filter_days_two_days_closed keep_rows_two_days dayofweek_sunday0_def
      dayofweek_two_days)

section \<open>Properties of the plot helper\<close>








lemma kind_DataFrame: "kind f \<noteq> Series \<Longrightarrow> f\<lparr>kind := DataFrame\<rparr> = f"
  by (cases "kind f") auto
































section \<open>Properties of the time-of-day helpers\<close>

lemma rnd_err: "float_rounding rnd \<Longrightarrow> \<bar>x\<bar> \<le> B \<Longrightarrow> \<bar>rnd x - x\<bar> \<le> B / 2 ^ 53"
proof -
  assume r: "float_rounding rnd" and b: "\<bar>x\<bar> \<le> B"
  from r have "\<bar>rnd x - x\<bar> \<le> \<bar>x\<bar> / 2 ^ 53" by (simp add: float_rounding_def)
  also have "\<dots> \<le> B / 2 ^ 53" using b by (simp add: divide_right_mono)
  finally show ?thesis .
qed

lemma rnd_nonneg: "float_rounding rnd \<Longrightarrow> 0 \<le> x \<Longrightarrow> 0 \<le> rnd x"
proof -
  assume r: "float_rounding rnd" and x: "0 \<le> x"
  from r have "\<bar>rnd x - x\<bar> \<le> \<bar>x\<bar> / 2 ^ 53" by (simp add: float_rounding_def)
  moreover have "x / 2 ^ 53 \<le> x" using x by (simp add: divide_le_eq_numeral1 mult.commute mult_left_le_one_le)
  ultimately show ?thesis using x by linarith
qed

lemma denominator_bounds:
  assumes r: "float_rounding rnd"
  shows "3599999999 \<le> rnd (3600 * 1000000) \<and> rnd (3600 * 1000000) \<le> 3600000001"
proof -
  have "\<bar>rnd (3600 * 1000000) - 3600 * 1000000\<bar> \<le> 3600000000 / 2 ^ 53"
    using rnd_err[OF r, of "3600 * 1000000" 3600000000] by simp
  moreover have "(3600000000::real) / 2 ^ 53 \<le> 1" by simp
  ultimately show ?thesis by linarith
qed

lemma quotient_error:
  assumes "0 \<le> (U::real)" "U < 1000000" "3599999999 \<le> den" "den \<le> 3600000001"
  shows "\<bar>U / den - U / 3600000000\<bar> \<le> 1 / 10 ^ 12" "0 \<le> U / den" "U / den \<le> 1"
proof -
  have den: "0 < den" using assms(3) by linarith
  have up: "U / den \<le> U / 3599999999"
    using assms(1,3) by (intro divide_left_mono) auto
  have lo: "U / 3600000001 \<le> U / den"
    using assms(1,4) den by (intro divide_left_mono) auto
  have e: "(1::real) / 10 ^ 12 = 1 / 1000000000000" by simp
  from up lo assms(1,2) show "\<bar>U / den - U / 3600000000\<bar> \<le> 1 / 10 ^ 12"
    unfolding e by linarith
  show "0 \<le> U / den" using assms(1) den by simp
  from up assms(1,2) show "U / den \<le> 1" by linarith
qed

lemma rnd_err15:
  assumes "float_rounding rnd" "\<bar>x\<bar> \<le> B"
  shows "\<bar>rnd x - x\<bar> \<le> B / 1000000000000000"
proof -
  have "0 \<le> B" using assms(2) by linarith
  then have "B / 2 ^ 53 \<le> B / 1000000000000000"
    by (intro divide_left_mono) auto
  with rnd_err[OF assms] show ?thesis by linarith
qed

lemma datetime_to_hour_error:
  assumes r: "float_rounding rnd" and v: "valid_time t"
  shows "\<bar>datetime_to_hour rnd t - fractional_hour t\<bar> \<le> 1 / 10 ^ 11"
    and "0 \<le> datetime_to_hour rnd t"
proof -
  define H M S U where "H = real_of_int (hour t)" and "M = real_of_int (minute t)"
    and "S = real_of_int (second t)" and "U = real_of_int (microsecond t)"
  have bH: "0 \<le> H" "H \<le> 23" and bM: "0 \<le> M" "M \<le> 59" and bS: "0 \<le> S" "S \<le> 59"
    and bU: "0 \<le> U" "U < 1000000"
    using v by (auto simp: valid_time_def H_def M_def S_def U_def)
  have p: "(1::real) / 10 ^ 11 = 1 / 100000000000" "(1::real) / 10 ^ 12 = 1 / 1000000000000"
    by simp_all
  define a where "a = rnd (M / 60)"
  have a: "\<bar>a - M / 60\<bar> \<le> 1 / 1000000000000000" "0 \<le> a"
  proof -
    have "\<bar>M / 60\<bar> \<le> 1" using bM by simp
    from rnd_err15[OF r this] show "\<bar>a - M / 60\<bar> \<le> 1 / 1000000000000000"
      by (simp add: a_def)
    show "0 \<le> a" unfolding a_def using bM by (intro rnd_nonneg[OF r]) simp
  qed
  define b where "b = rnd (H + a)"
  have b: "\<bar>b - (H + a)\<bar> \<le> 25 / 1000000000000000" "0 \<le> b"
  proof -
    have "\<bar>H + a\<bar> \<le> 25"
      unfolding abs_le_iff using bH bM a unfolding abs_le_iff by (intro conjI) linarith+
    from rnd_err15[OF r this] show "\<bar>b - (H + a)\<bar> \<le> 25 / 1000000000000000"
      by (simp add: b_def)
    show "0 \<le> b" unfolding b_def using bH a by (intro rnd_nonneg[OF r]) simp
  qed
  define c where "c = rnd (S / 3600)"
  have c: "\<bar>c - S / 3600\<bar> \<le> 1 / 1000000000000000" "0 \<le> c"
  proof -
    have "\<bar>S / 3600\<bar> \<le> 1" using bS by simp
    from rnd_err15[OF r this] show "\<bar>c - S / 3600\<bar> \<le> 1 / 1000000000000000"
      by (simp add: c_def)
    show "0 \<le> c" unfolding c_def using bS by (intro rnd_nonneg[OF r]) simp
  qed
  define d where "d = rnd (b + c)"
  have d: "\<bar>d - (b + c)\<bar> \<le> 25 / 1000000000000000" "0 \<le> d"
  proof -
    have "\<bar>b + c\<bar> \<le> 25"
      unfolding abs_le_iff using bH bM bS a b c unfolding abs_le_iff
      by (intro conjI) linarith+
    from rnd_err15[OF r this] show "\<bar>d - (b + c)\<bar> \<le> 25 / 1000000000000000"
      by (simp add: d_def)
    show "0 \<le> d" unfolding d_def using b c by (intro rnd_nonneg[OF r]) simp
  qed
  define den where "den = rnd (3600 * 1000000)"
  have den: "3599999999 \<le> den" "den \<le> 3600000001"
    using denominator_bounds[OF r] by (simp_all add: den_def)
  note q = quotient_error[OF bU den]
  define e where "e = rnd (U / den)"
  have e: "\<bar>e - U / den\<bar> \<le> 1 / 1000000000000000" "0 \<le> e"
  proof -
    have "\<bar>U / den\<bar> \<le> 1" using q(2,3) by simp
    from rnd_err15[OF r this] show "\<bar>e - U / den\<bar> \<le> 1 / 1000000000000000"
      by (simp add: e_def)
    show "0 \<le> e" unfolding e_def using q(2) by (intro rnd_nonneg[OF r])
  qed
  define res where "res = rnd (d + e)"
  have res: "\<bar>res - (d + e)\<bar> \<le> 26 / 1000000000000000" "0 \<le> res"
  proof -
    have "\<bar>d + e\<bar> \<le> 26"
      unfolding abs_le_iff using bH bM bS a b c d e q(2,3) unfolding abs_le_iff
      by (intro conjI) linarith+
    from rnd_err15[OF r this] show "\<bar>res - (d + e)\<bar> \<le> 26 / 1000000000000000"
      by (simp add: res_def)
    show "0 \<le> res" unfolding res_def using d e by (intro rnd_nonneg[OF r]) simp
  qed
  have eq: "datetime_to_hour rnd t = res"
    by (simp add: datetime_to_hour_def res_def d_def e_def den_def b_def c_def a_def
        H_def M_def S_def U_def)
  have fr: "fractional_hour t = H + M / 60 + S / 3600 + U / 3600000000"
    by (simp add: fractional_hour_def H_def M_def S_def U_def)
  show "\<bar>datetime_to_hour rnd t - fractional_hour t\<bar> \<le> 1 / 10 ^ 11"
    unfolding eq fr p abs_le_iff
    using a(1) b(1) c(1) d(1) e(1) res(1) q(1) unfolding p abs_le_iff
    by (intro conjI) linarith+
  show "0 \<le> datetime_to_hour rnd t" unfolding eq by (rule res(2))
qed

lemma fractional_hour_microseconds:
  "fractional_hour t = real_of_int (microseconds_of_day t) / 3600000000"
  by (simp add: fractional_hour_def microseconds_of_day_def field_simps)

lemma microseconds_bound:
  "valid_time t \<Longrightarrow> 0 \<le> microseconds_of_day t \<and> microseconds_of_day t \<le> 86399999999"
  by (auto simp: valid_time_def microseconds_of_day_def)

lemma same_time_or_later:
  assumes "valid_time t1" "valid_time t2" "same_day t1 t2" "timestamp_le t1 t2"
  shows "(hour t1 = hour t2 \<and> minute t1 = minute t2 \<and> second t1 = second t2
          \<and> microsecond t1 = microsecond t2)
         \<or> microseconds_of_day t1 + 1 \<le> microseconds_of_day t2"
  using assms
  by (auto simp: valid_time_def same_day_def timestamp_le_def microseconds_of_day_def)

lemma datetime_to_hour_fields:
  "hour t1 = hour t2 \<and> minute t1 = minute t2 \<and> second t1 = second t2
     \<and> microsecond t1 = microsecond t2 \<Longrightarrow>
   datetime_to_hour rnd t1 = datetime_to_hour rnd t2"
  by (simp add: datetime_to_hour_def)

lemma datetime_to_hour_below_24:
  assumes "float_rounding rnd" "valid_time t"
  shows "datetime_to_hour rnd t < 24"
proof -
  have "real_of_int (microseconds_of_day t) \<le> 86399999999"
    using microseconds_bound[OF assms(2)] by linarith
  then have "fractional_hour t \<le> 86399999999 / 3600000000"
    by (simp add: fractional_hour_microseconds)
  moreover have "(1::real) / 10 ^ 11 = 1 / 100000000000" by simp
  ultimately show ?thesis using datetime_to_hour_error(1)[OF assms] by linarith
qed

lemma datetime_to_hour_mono:
  assumes "float_rounding rnd" "valid_time t1" "valid_time t2" "same_day t1 t2"
    "timestamp_le t1 t2"
  shows "datetime_to_hour rnd t1 \<le> datetime_to_hour rnd t2"
proof -
  from same_time_or_later[OF assms(2-5)] show ?thesis
  proof
    assume "hour t1 = hour t2 \<and> minute t1 = minute t2 \<and> second t1 = second t2
          \<and> microsecond t1 = microsecond t2"
    then show ?thesis by (simp add: datetime_to_hour_fields[of t1 t2])
  next
    assume "microseconds_of_day t1 + 1 \<le> microseconds_of_day t2"
    then have "real_of_int (microseconds_of_day t1) + 1 \<le> real_of_int (microseconds_of_day t2)"
      by linarith
    then have "fractional_hour t1 + 1 / 3600000000 \<le> fractional_hour t2"
      by (simp add: fractional_hour_microseconds field_simps)
    moreover have "(1::real) / 10 ^ 11 = 1 / 100000000000" by simp
    ultimately show ?thesis
      using datetime_to_hour_error(1)[OF assms(1,2)] datetime_to_hour_error(1)[OF assms(1,3)]
      by linarith
  qed
qed

lemma ulp_pos: "0 < ulp x"
  by (simp add: ulp_def)

lemma ulp_le: "x \<noteq> 0 \<Longrightarrow> ulp x \<le> \<bar>x\<bar> / 2 ^ 52"
proof -
  assume x: "x \<noteq> 0"
  have "of_int \<lfloor>log 2 \<bar>x\<bar>\<rfloor> \<le> log 2 \<bar>x\<bar>" by simp
  then have "2 powr (of_int \<lfloor>log 2 \<bar>x\<bar>\<rfloor>) \<le> 2 powr (log 2 \<bar>x\<bar>)"
    by (simp only: powr_le_cancel_iff) 
  also have "\<dots> = \<bar>x\<bar>" using x by simp
  finally have "2 powr (of_int \<lfloor>log 2 \<bar>x\<bar>\<rfloor>) \<le> \<bar>x\<bar>" .
  moreover have "ulp x = 2 powr (of_int \<lfloor>log 2 \<bar>x\<bar>\<rfloor>) / 2 ^ 52"
    by (simp add: ulp_def powr_diff)
  ultimately show ?thesis by (simp add: divide_right_mono)
qed

lemma float_rounding_round_to_double: "float_rounding round_to_double"
  unfolding float_rounding_def
proof
  fix x :: real
  show "\<bar>round_to_double x - x\<bar> \<le> \<bar>x\<bar> / 2 ^ 53"
  proof (cases "x = 0")
    case True
    then show ?thesis by (simp add: round_to_double_def)
  next
    case False
    let ?u = "ulp x"
    have u: "0 < ?u" by (rule ulp_pos)
    have "\<bar>of_int (round (x / ?u)) - x / ?u\<bar> \<le> 1 / 2"
      by (rule of_int_round_abs_le)
    then have "\<bar>of_int (round (x / ?u)) - x / ?u\<bar> * ?u \<le> 1 / 2 * ?u"
      using u by (intro mult_right_mono) auto
    moreover have "\<bar>of_int (round (x / ?u)) - x / ?u\<bar> * ?u
        = \<bar>of_int (round (x / ?u)) * ?u - x\<bar>"
    proof -
      have "\<bar>of_int (round (x / ?u)) - x / ?u\<bar> * ?u
          = \<bar>(of_int (round (x / ?u)) - x / ?u) * ?u\<bar>"
        using u by (simp add: abs_mult)
      also have "(of_int (round (x / ?u)) - x / ?u) * ?u = of_int (round (x / ?u)) * ?u - x"
        using u by (simp add: algebra_simps)
      finally show ?thesis .
    qed
    ultimately have "\<bar>round_to_double x - x\<bar> \<le> ?u / 2"
      using False by (simp add: round_to_double_def)
    also have "\<dots> \<le> (\<bar>x\<bar> / 2 ^ 52) / 2"
      using ulp_le[OF False] by simp
    also have "\<dots> = \<bar>x\<bar> / 2 ^ 53" by simp
    finally show ?thesis .
  qed
qed

text \<open>
  C10.  For every valid timestamp, \<^verbatim>\<open>datetime_to_hour\<close> returns
  \<open>hour + minute/60 + second/3600 + microsecond/3.6e9\<close>: exactly in exact arithmetic,
  and within \<open>10\<^sup>-\<^sup>1\<^sup>1\<close> of it under any rounding with the relative error of
  double precision.  The value lies in \<open>[0, 24)\<close>, and within a single calendar day it is
  non-decreasing in the timestamp.  The function has no failing branch.
\<close>

theorem datetime_to_hour_fractional_hour:
  assumes "float_rounding rnd" "valid_timestamp t"
  shows "datetime_to_hour (\<lambda>x. x) t =
           real_of_int (hour t) + real_of_int (minute t) / 60 + real_of_int (second t) / 3600
             + real_of_int (microsecond t) / 3600000000
         \<and> \<bar>datetime_to_hour rnd t - fractional_hour t\<bar> \<le> 1 / 10 ^ 11
         \<and> 0 \<le> datetime_to_hour rnd t \<and> datetime_to_hour rnd t < 24
         \<and> (\<forall>t'. valid_timestamp t' \<and> same_day t t' \<and> timestamp_le t t' \<longrightarrow>
                datetime_to_hour rnd t \<le> datetime_to_hour rnd t')"
proof -
  from assms(2) have v: "valid_time t" by (simp add: valid_timestamp_def)
  have "datetime_to_hour (\<lambda>x. x) t =
           real_of_int (hour t) + real_of_int (minute t) / 60 + real_of_int (second t) / 3600
             + real_of_int (microsecond t) / 3600000000"
    by (simp add: datetime_to_hour_def)
  moreover have "datetime_to_hour rnd t \<le> datetime_to_hour rnd t'"
    if "valid_timestamp t' \<and> same_day t t' \<and> timestamp_le t t'" for t'
    using that datetime_to_hour_mono[OF assms(1) v, of t'] by (simp add: valid_timestamp_def)
  ultimately show ?thesis
    using datetime_to_hour_error[OF assms(1) v] datetime_to_hour_below_24[OF assms(1) v]
    by blast
qed

theorem datetime_to_hour_fractional_hour_witness:
  "datetime_to_hour (\<lambda>x. x) quarter_past_three = 61 / 4
   \<and> datetime_to_hour (\<lambda>x. x) quarter_past_three
       \<le> datetime_to_hour (\<lambda>x. x) last_microsecond
   \<and> datetime_to_hour (\<lambda>x. x) last_microsecond < 24
   \<and> 0 \<le> datetime_to_hour round_to_double quarter_past_three
   \<and> datetime_to_hour round_to_double quarter_past_three
       \<le> datetime_to_hour round_to_double last_microsecond
   \<and> datetime_to_hour round_to_double last_microsecond < 24"
proof -
  have r: "float_rounding (\<lambda>x. x)" by (simp add: float_rounding_def)
  note r' = float_rounding_round_to_double
  have v: "valid_timestamp quarter_past_three" "valid_timestamp last_microsecond"
    "same_day quarter_past_three last_microsecond"
    "timestamp_le quarter_past_three last_microsecond"
    by (simp_all add: valid_timestamp_def valid_date_def valid_time_def days_in_month_def
        is_leap_def quarter_past_three_def last_microsecond_def same_day_def timestamp_le_def)
  have "datetime_to_hour (\<lambda>x. x) quarter_past_three = 61 / 4"
    by (simp add: datetime_to_hour_def quarter_past_three_def)
  with datetime_to_hour_fractional_hour [OF r v(1)]
    datetime_to_hour_fractional_hour [OF r v(2)]
    datetime_to_hour_fractional_hour [OF r' v(1)]
    datetime_to_hour_fractional_hour [OF r' v(2)] v
  show ?thesis by blast
qed

section \<open>Properties of the average day\<close>

lemma average_day_plotter_closed:
  assumes "cols s = [(name, vs)]" "name \<noteq> ''hour''" "length vs = length (index s)"
  shows "average_day_plotter rnd s =
     Inr (map (\<lambda>k. (k, [mean (bucket rnd s k)]))
              (sort (remdups (map (datetime_to_hour rnd) (index s)))))"
proof -
  have "select (map (\<lambda>h. h = k) (map (datetime_to_hour rnd) (index s))) vs = bucket rnd s k"
    for k
    using select_map_zip[of vs "index s" "\<lambda>t. datetime_to_hour rnd t = k"] assms(1,3)
    by (simp add: bucket_def comp_def)
  then show ?thesis
    using assms(1,2)
    by (simp add: average_day_plotter_def Let_def groupby_mean_def to_frame_def setitem_def
        getitem_def)
qed

lemma average_day_plotter_empty_series:
  "average_day_plotter (\<lambda>x. x) empty_series = Inr []"
  by (simp add: average_day_plotter_def empty_series_def to_frame_def setitem_def
      groupby_mean_def getitem_def)

lemma hours_two_day_series:
  "map (datetime_to_hour (\<lambda>x. x)) (index two_day_series) = [0, 25 / 2, 0, 25 / 2]"
  by (simp add: two_day_series_def hourly_def half_past_def datetime_to_hour_def)

lemma average_day_plotter_two_day_series:
  "average_day_plotter (\<lambda>x. x) two_day_series = Inr [(0, [2]), (25 / 2, [4])]"
  by (simp add: average_day_plotter_def hours_two_day_series Let_def)
    (simp add: two_day_series_def to_frame_def setitem_def groupby_mean_def getitem_def
      select_def mean_def)

lemma wf_two_day_series:
  "wf_frame two_day_series \<and> kind two_day_series = Series
   \<and> columns two_day_series \<noteq> [''hour'']"
  by (simp add: wf_frame_def two_day_series_def columns_def)

text \<open>
  C5, as stated, fails on a series with zero samples: the source has no check for empty
  input and no such exception; grouping an empty table gives an empty table, and the
  call ends without error, handing no point to the plot.
\<close>

theorem average_day_plotter_empty_counterexample:
  "average_day_plotter (\<lambda>x. x) empty_series = Inr []
   \<and> index empty_series = []"
  by (simp add: average_day_plotter_empty_series) (simp add: empty_series_def)

text \<open>
  C5, amended.  Applied to a series with zero samples the average-day fold returns the
  empty sequence, without error.  For every series (not itself named \<^verbatim>\<open>hour\<close>) it
  succeeds: the samples are grouped by the exact value of their fractional hour, one
  bucket per value occurring, each bucket holds the arithmetic mean of the values of its
  group, and the buckets come in strictly ascending order of fractional hour.
\<close>

theorem average_day_plotter_buckets:
  assumes "wf_frame s" "kind s = Series" "columns s \<noteq> [''hour'']"
  shows "\<exists>buckets. average_day_plotter rnd s = Inr buckets
           \<and> sorted_wrt (<) (map fst buckets)
           \<and> set (map fst buckets) = datetime_to_hour rnd ` set (index s)
           \<and> (\<forall>b \<in> set buckets.
                 bucket rnd s (fst b) \<noteq> []
                 \<and> snd b = [sum_list (bucket rnd s (fst b))
                              / real (length (bucket rnd s (fst b)))])
           \<and> (index s = [] \<longrightarrow> buckets = [])"
proof -
  from assms(1,2) obtain name vs where c: "cols s = [(name, vs)]"
    by (cases "cols s") (auto simp: wf_frame_def)
  with assms have n: "name \<noteq> ''hour''" and l: "length vs = length (index s)"
    by (auto simp: columns_def wf_frame_def)
  let ?keys = "sort (remdups (map (datetime_to_hour rnd) (index s)))"
  let ?buckets = "map (\<lambda>k. (k, [mean (bucket rnd s k)])) ?keys"
  have 1: "average_day_plotter rnd s = Inr ?buckets"
    by (rule average_day_plotter_closed[OF c n l])
  have keys: "map fst ?buckets = ?keys" by (simp add: comp_def)
  have 2: "sorted_wrt (<) (map fst ?buckets)"
    unfolding keys by (simp add: strict_sorted_iff)
  have 3: "set (map fst ?buckets) = datetime_to_hour rnd ` set (index s)"
    unfolding keys by simp
  have 4: "bucket rnd s (fst b) \<noteq> []
           \<and> snd b = [sum_list (bucket rnd s (fst b)) / real (length (bucket rnd s (fst b)))]"
    if "b \<in> set ?buckets" for b
  proof -
    from that obtain t where t: "t \<in> set (index s)" "fst b = datetime_to_hour rnd t"
      "snd b = [mean (bucket rnd s (fst b))]"
      by auto
    from t(1) l obtain v where "(t, v) \<in> set (zip (index s) vs)"
      by (metis in_set_impl_in_set_zip1)
    with t(2) c have "v \<in> set (bucket rnd s (fst b))"
      by (force simp: bucket_def)
    with t(3) show ?thesis by (auto simp: mean_def)
  qed
  from 1 2 3 4 show ?thesis by (intro exI[of _ ?buckets]) auto
qed

theorem average_day_plotter_buckets_witness:
  "\<exists>buckets. average_day_plotter (\<lambda>x. x) two_day_series = Inr buckets
     \<and> buckets = [(0, [2]), (25 / 2, [4])]
     \<and> sorted_wrt (<) (map fst buckets)"
proof -
  have h: "wf_frame two_day_series" "kind two_day_series = Series"
    "columns two_day_series \<noteq> [''hour'']"
    using wf_two_day_series by simp_all
  from average_day_plotter_buckets [OF h, of "\<lambda>x. x"] obtain buckets where
    "average_day_plotter (\<lambda>x. x) two_day_series = Inr buckets"
    "sorted_wrt (<) (map fst buckets)"
    by blast
  then show ?thesis by (simp add: average_day_plotter_two_day_series)
qed

section \<open>Properties of the objects\<close>

lemma filter_months_st_agrees:
  assumes "n \<le> p" "p < length st" "filter_months_st st p m = (st', r)"
  shows "take n st' = take n st \<and> length st \<le> length st'
         \<and> (case r of Inl e \<Rightarrow> filter_months (st ! p) m = Inl e
             | Inr q \<Rightarrow> n \<le> q \<and> q < length st' \<and> filter_months (st ! p) m = Inr (st' ! q))"
  using assms
  by (auto simp: filter_months_st_def filter_months_def alloc_def Let_def getitem_setitem
      nth_append split: if_splits)

lemma filter_dayofweek_st_agrees:
  assumes "n \<le> p" "p < length st" "filter_dayofweek_st st p d = (st', r)"
  shows "take n st' = take n st \<and> length st \<le> length st'
         \<and> (case r of Inl e \<Rightarrow> filter_dayofweek (st ! p) d = Inl e
             | Inr q \<Rightarrow> n \<le> q \<and> q < length st' \<and> filter_dayofweek (st ! p) d = Inr (st' ! q))"
  using assms
  by (auto simp: filter_dayofweek_st_def filter_dayofweek_def alloc_def Let_def getitem_setitem
      nth_append split: if_splits sum.splits)

lemma filter_days_st_agrees:
  assumes a: "a < length st"
  shows "take (length st) (fst (filter_days_st st a d m)) = st
         \<and> deref (filter_days_st st a d m) = filter_days (st ! a) d m"
proof -
  let ?n = "length st"
  let ?st1 = "st @ [DataFrame_of_index (index (st ! a))]"
  have al: "alloc st (DataFrame_of_index (index (st ! a))) = (?st1, ?n)"
    by (simp add: alloc_def)
  obtain st2 r2 where m2: "filter_months_st ?st1 ?n m = (st2, r2)" by force
  from filter_months_st_agrees[OF _ _ m2, of ?n]
  have s2: "take ?n st2 = st" "length ?st1 \<le> length st2"
    and r2: "case r2 of Inl e \<Rightarrow> filter_months (?st1 ! ?n) m = Inl e
             | Inr q \<Rightarrow> ?n \<le> q \<and> q < length st2 \<and> filter_months (?st1 ! ?n) m = Inr (st2 ! q)"
    by simp_all
  have f1: "?st1 ! ?n = DataFrame_of_index (index (st ! a))" by simp
  show ?thesis
  proof (cases r2)
    case (Inl e)
    with m2 r2 s2 al f1 show ?thesis
      by (simp add: filter_days_st_def filter_days_def deref_def)
  next
    case (Inr q)
    with r2 have q: "?n \<le> q" "q < length st2"
      "filter_months (?st1 ! ?n) m = Inr (st2 ! q)" by simp_all
    obtain st3 r3 where m3: "filter_dayofweek_st st2 q d = (st3, r3)" by force
    from filter_dayofweek_st_agrees[OF q(1,2) m3]
    have s3: "take ?n st3 = take ?n st2" "length st2 \<le> length st3"
      and r3: "case r3 of Inl e \<Rightarrow> filter_dayofweek (st2 ! q) d = Inl e
             | Inr p \<Rightarrow> ?n \<le> p \<and> p < length st3 \<and> filter_dayofweek (st2 ! q) d = Inr (st3 ! p)"
      by simp_all
    have a3: "st3 ! a = st ! a"
      using a s2 s3 by (metis nth_take)
    show ?thesis
    proof (cases r3)
      case (Inl e)
      with m2 Inr m3 r3 s2 s3 al f1 q show ?thesis
        by (simp add: filter_days_st_def filter_days_def deref_def)
    next
      case r: (Inr p)
      with r3 have p: "filter_dayofweek (st2 ! q) d = Inr (st3 ! p)" by simp
      from m2 Inr m3 r s2 s3 al f1 q p a3 show ?thesis
        by (simp add: filter_days_st_def filter_days_def deref_def alloc_def)
    qed
  qed
qed

lemma average_day_plotter_st_agrees:
  assumes "a < length st"
  shows "take (length st) (fst (average_day_plotter_st rnd st a)) = st
         \<and> snd (average_day_plotter_st rnd st a) = average_day_plotter rnd (st ! a)"
  using assms
  by (simp add: average_day_plotter_st_def average_day_plotter_def alloc_def Let_def
      nth_append)

lemma dataframe_plotter_store:
  assumes "a < length st"
  shows "fst (dataframe_plotter st a args) =
     (if kind (st ! a) = Series
      then st @ [if plot_type args = ''bar'' \<and> \<not> isl (normalize (columns (st ! a)) args)
                 then drawn_frame (st ! a) args else (st ! a)\<lparr>kind := DataFrame\<rparr>]
      else if plot_type args = ''bar'' \<and> \<not> isl (normalize (columns (st ! a)) args)
      then st[a := setitem (st ! a) ''x_axis'' (arange (length (index (st ! a))))]
      else st)"
  using assms
  by (auto simp: dataframe_plotter_def alloc_def drawn_frame_def columns_def kind_DataFrame
      nth_append split: sum.splits)

lemma normalize_fake_data_bar: "\<not> isl (normalize (columns fake_data) bar_args)"
  by (simp add: normalize_def bar_args_def default_args_def fake_data_def columns_def
      str_to_sparse_list_def single_subplot_def)

lemma dataframe_plotter_bar_store:
  "fst (dataframe_plotter [fake_data] 0 bar_args)
     = [setitem fake_data ''x_axis'' [0, 1, 2]]"
proof -
  have "kind fake_data = DataFrame" "plot_type bar_args = ''bar''"
    "arange (length (index fake_data)) = [0, 1, 2]"
    by (simp_all add: fake_data_def bar_args_def default_args_def arange_def upt_rec)
  with normalize_fake_data_bar show ?thesis
    by (simp add: dataframe_plotter_store)
qed

lemma overlay_lines_store:
  "n \<le> length st \<Longrightarrow> take n (fst (overlay_lines rnd st series dates)) = take n st"
proof (induction dates arbitrary: st)
  case Nil
  then show ?case by simp
next
  case (Cons d dates)
  let ?st2 = "st @ [date_rows (st ! series) d]"
  let ?st3 = "?st2 @ [date_rows (?st2 ! series) d]"
  have "fst (overlay_lines rnd st series (d # dates)) = fst (overlay_lines rnd ?st3 series dates)"
    by (simp add: alloc_def Let_def split: prod.splits)
  with Cons.IH[of ?st3] Cons.prems show ?case by simp
qed

lemma overlay_days_plotter_store:
  "take (length st) (fst (overlay_days_plotter_st rnd st df label)) = st"
  using overlay_lines_store[of "length st" st rnd df "dates_of (st ! df)"]
  by (auto simp: overlay_days_plotter_st_def split: prod.splits)

text \<open>
  C4, as stated, fails for the plot helper: with \<^verbatim>\<open>plot_type='bar'\<close> line 172
  assigns the column \<^verbatim>\<open>x_axis\<close> to the table the caller passed, which has one more
  column after the call.
\<close>

theorem bar_plot_writes_x_axis_counterexample:
  "fst (dataframe_plotter [fake_data] 0 bar_args) ! 0 \<noteq> fake_data
   \<and> columns (fst (dataframe_plotter [fake_data] 0 bar_args) ! 0)
       = [''col1'', ''col2'', ''col3'', ''col4'', ''x_axis'']"
  unfolding dataframe_plotter_bar_store
  by (simp add: setitem_def fake_data_def columns_def)

text \<open>
  C4, amended.  The day and month filter, the overlay of days and the average-day fold
  leave the table or series supplied by the caller, and every other object that existed
  before the call, unchanged: they create new objects and write only to those.  So does
  the plot helper, except when it is called on a table (not a series) with
  \<^verbatim>\<open>plot_type='bar'\<close> and arguments that pass normalisation: then the caller's table
  gains the column \<^verbatim>\<open>x_axis\<close> holding 0, 1, ..., n-1 (a column of that name is
  overwritten), and nothing else changes.
\<close>

theorem callers_table:
  assumes "df < length st"
  shows "take (length st) (fst (filter_days_st st df d m)) = st
       \<and> fst (filter_days_st st df d m) ! df = st ! df
       \<and> take (length st) (fst (overlay_days_plotter_st rnd st df label)) = st
       \<and> fst (overlay_days_plotter_st rnd st df label) ! df = st ! df
       \<and> take (length st) (fst (average_day_plotter_st rnd st df)) = st
       \<and> fst (average_day_plotter_st rnd st df) ! df = st ! df
       \<and> (plot_type args \<noteq> ''bar'' \<or> kind (st ! df) = Series
          \<or> isl (normalize (columns (st ! df)) args) \<longrightarrow>
            take (length st) (fst (dataframe_plotter st df args)) = st
            \<and> fst (dataframe_plotter st df args) ! df = st ! df)
       \<and> (plot_type args = ''bar'' \<and> kind (st ! df) = DataFrame
          \<and> \<not> isl (normalize (columns (st ! df)) args) \<longrightarrow>
            fst (dataframe_plotter st df args)
              = st[df := setitem (st ! df) ''x_axis'' (arange (length (index (st ! df))))])"
proof -
  have same: "st' ! df = st ! df" if "take (length st) st' = st" for st'
    using that assms by (metis nth_take)
  have 1: "take (length st) (fst (filter_days_st st df d m)) = st"
    using filter_days_st_agrees[OF assms, of d m] by simp
  have 2: "take (length st) (fst (overlay_days_plotter_st rnd st df label)) = st"
    by (rule overlay_days_plotter_store)
  have 3: "take (length st) (fst (average_day_plotter_st rnd st df)) = st"
    using average_day_plotter_st_agrees[OF assms, of rnd] by simp
  have 4: "take (length st) (fst (dataframe_plotter st df args)) = st"
    if "plot_type args \<noteq> ''bar'' \<or> kind (st ! df) = Series
          \<or> isl (normalize (columns (st ! df)) args)"
    using that assms by (auto simp: dataframe_plotter_store)
  have 5: "fst (dataframe_plotter st df args)
              = st[df := setitem (st ! df) ''x_axis'' (arange (length (index (st ! df))))]"
    if "plot_type args = ''bar'' \<and> kind (st ! df) = DataFrame
          \<and> \<not> isl (normalize (columns (st ! df)) args)"
    using that assms by (simp add: dataframe_plotter_store)
  from 1 2 3 4 5 same[OF 1] same[OF 2] same[OF 3] same[OF 4] show ?thesis by blast
qed

theorem callers_table_witness:
  "take 1 (fst (filter_days_st [week_frame] 0 (DStr ''weekend'') (MInt 1))) = [week_frame]
   \<and> take 1 (fst (overlay_days_plotter_st (\<lambda>x. x) [two_day_series] 0 [])) = [two_day_series]
   \<and> take 1 (fst (average_day_plotter_st (\<lambda>x. x) [two_day_series] 0)) = [two_day_series]
   \<and> take 1 (fst (dataframe_plotter [fake_data] 0 default_args)) = [fake_data]
   \<and> fst (dataframe_plotter [fake_data] 0 bar_args)
       = [setitem fake_data ''x_axis'' (arange 3)]"
proof -
  have k: "kind fake_data = DataFrame" "plot_type bar_args = ''bar''"
    "plot_type default_args \<noteq> ''bar''" "length (index fake_data) = 3"
    by (simp_all add: fake_data_def bar_args_def default_args_def)
  from callers_table [of 0 "[week_frame]" "DStr ''weekend''" "MInt 1" rnd label args]
  have 1: "take 1 (fst (filter_days_st [week_frame] 0 (DStr ''weekend'') (MInt 1)))
      = [week_frame]" for rnd label args
    by simp
  from callers_table [of 0 "[two_day_series]" d m "\<lambda>x. x" "[]" args]
  have 2: "take 1 (fst (overlay_days_plotter_st (\<lambda>x. x) [two_day_series] 0 []))
      = [two_day_series]
    \<and> take 1 (fst (average_day_plotter_st (\<lambda>x. x) [two_day_series] 0))
      = [two_day_series]" for d m args
    by simp
  from callers_table [of 0 "[fake_data]" d m rnd label default_args] k
  have 3: "take 1 (fst (dataframe_plotter [fake_data] 0 default_args)) = [fake_data]"
    for d m rnd label
    by simp
  from callers_table [of 0 "[fake_data]" d m rnd label bar_args] k normalize_fake_data_bar
  have 4: "fst (dataframe_plotter [fake_data] 0 bar_args)
       = [setitem fake_data ''x_axis'' (arange 3)]" for d m rnd label
    by simp
  from 1 2 3 4 show ?thesis by blast
qed

end
